theory Spec2Isabelle
  imports Complex_Main "HOL-Library.Word" "HOL-Library.Log_Nat"
begin

unbundle bit_operations_syntax

section \<open>sus/num/__private/int_log10.h\<close>

text \<open>
  The branchless base-10 logarithm of the numeric layer, on \<open>uint32_t\<close>.
  The four constants are written the way the header writes them.
\<close>

definition C1 :: "32 word" where
  "C1 = push_bit 17 3 - 10"

definition C2 :: "32 word" where
  "C2 = push_bit 17 4 - 100"

definition C3 :: "32 word" where
  "C3 = push_bit 17 7 - 1000"

definition C4 :: "32 word" where
  "C4 = push_bit 17 4 - 10000"

definition less_than_5 :: "32 word \<Rightarrow> 32 word" where
  "less_than_5 val =
     drop_bit 17 (((val + C1) AND (val + C2)) XOR ((val + C3) AND (val + C4)))"

definition u32 :: "32 word \<Rightarrow> 32 word" where
  "u32 val0 =
     (let log0 = 0;
          (val, log) = (if val0 \<ge> 100000 then (val0 div 100000, log0 + 5)
                        else (val0, log0))
      in log + less_than_5 val)"

section \<open>subspace/option/option.h: faults, events and payload traits\<close>

text \<open>
  A call either returns or ends the process. \<open>Panic\<close> is a failed \<open>sus::check\<close>,
  \<open>Panic_with_message\<close> a failed \<open>sus::check_with_message\<close>, \<open>UB\<close> the use of
  a payload slot that holds no object (what the \<open>_unchecked\<close> methods document as
  Undefined Behaviour). \<open>IllFormed\<close> is not a run: the instantiation of the
  template does not compile (a call of a member function that the class does not
  declare, or a class template that is declared and never defined); the string names
  what is missing.
\<close>

datatype Fault = Panic | Panic_with_message string | UB | IllFormed string

text \<open>
  What happens to payload objects is recorded as a list of events, oldest first:
  a payload constructed into a slot, a live payload overwritten by assignment
  (old value, new value), a payload's destructor run, and a call of a user function
  on a payload.
\<close>

datatype 'a Event = Constructed 'a | Assigned 'a 'a | Destroyed 'a | Called 'a

text \<open>
  The template parameter \<open>T\<close>: the compile-time predicates that select the
  overloads of \<open>Option<T>\<close> and the operations of \<open>T\<close> that \<open>Option\<close> calls.
\<close>

record 'a Traits =
  IsTrivialDtorOrRef :: bool
  IsTrivialCopyCtorOrRef :: bool
  IsTrivialMoveCtorOrRef :: bool
  IsTrivialCopyAssignOrRef :: bool
  IsTrivialMoveAssignOrRef :: bool
  Copy :: bool
  CloneFrom :: bool
  T_clone :: "'a \<Rightarrow> 'a"
  T_clone_from :: "'a \<Rightarrow> 'a \<Rightarrow> 'a"
  T_default :: "'a"

definition bind_res :: "Fault + 'x \<Rightarrow> ('x \<Rightarrow> Fault + 'y) \<Rightarrow> Fault + 'y" where
  "bind_res m f = (case m of Inl e \<Rightarrow> Inl e | Inr x \<Rightarrow> f x)"

text \<open>
  Modelled from the spec: \<open>sus::check\<close> and \<open>sus::check_with_message\<close> of
  subspace/assertions/check.h, which is not among the sources. A violated contract
  "immediately terminates with a diagnostic message"; option.h documents the two as
  "will panic without a message" and "will panic with the given message".
\<close>

definition check :: "bool \<Rightarrow> Fault + unit" where
  "check cond = (if cond then Inr () else Inl Panic)"

definition check_with_message :: "bool \<Rightarrow> string \<Rightarrow> Fault + unit" where
  "check_with_message cond msg = (if cond then Inr () else Inl (Panic_with_message msg))"

text \<open>sus/mem/clone.h: \<open>sus::clone\<close> and \<open>sus::clone_into\<close> (the new value of \<open>dest\<close>).\<close>

definition clone_T :: "'a Traits \<Rightarrow> 'a \<Rightarrow> 'a" where
  "clone_T tr source = (if Copy tr then source else T_clone tr source)"

definition clone_into :: "'a Traits \<Rightarrow> 'a \<Rightarrow> 'a \<Rightarrow> 'a" where
  "clone_into tr dest source =
     (if Copy tr then source
      else if CloneFrom tr then T_clone_from tr dest source
      else T_clone tr source)"

text \<open>
  Modelled from the spec: the concept \<open>CopyOrRef\<close> of subspace/mem/copy.h, which
  is not among the sources: \<open>Copy\<close>, or a reference (as \<open>CloneOrRef\<close> is
  \<open>Clone\<close>, or a reference, in clone.h). The payloads here are objects.
\<close>

definition CopyOrRef :: "'a Traits \<Rightarrow> bool" where
  "CopyOrRef tr = Copy tr"

section \<open>The storage cell of Option\<close>

text \<open>
  Modelled from the spec: \<open>enum class State\<close> of subspace/option/state.h, which is
  not among the sources. The discriminant of an Optional is \<open>None\<close> or \<open>Some\<close>.
\<close>

datatype State = State_None | State_Some

text \<open>
  Modelled from the spec: the class \<open>Storage<T>\<close> of
  subspace/option/__private/storage.h, which is not among the sources. The storage
  cell is "a payload slot" with "a companion discriminant"; the slot "becomes live on
  construction of a value into it; becomes dead on explicit destroy or on move-out
  (take)". \<open>disc\<close> is the discriminant, \<open>slot\<close> the payload slot: \<open>Some v\<close> while
  an object with value \<open>v\<close> lives in it.
\<close>

record 'a Storage =
  disc :: State
  slot :: "'a option"

text \<open>Modelled from the spec: \<open>Storage()\<close>, "Construct empty: discriminant = None".\<close>

definition Storage_empty :: "'a Storage" where
  "Storage_empty = \<lparr>disc = State_None, slot = None\<rparr>"

text \<open>Modelled from the spec: \<open>Storage(t)\<close>, "Construct with value".\<close>

definition Storage_with :: "'a \<Rightarrow> 'a Storage" where
  "Storage_with t = \<lparr>disc = State_Some, slot = Some t\<rparr>"

text \<open>Modelled from the spec: \<open>Storage::state()\<close>, "O(1) discriminant read".\<close>

definition state :: "'a Storage \<Rightarrow> State" where
  "state s = disc s"

text \<open>
  Modelled from the spec: \<open>Storage::val()\<close> and \<open>val_mut()\<close>; "reading an
  alternative's value is only valid when that alternative is the live one".
\<close>

definition val :: "'a Storage \<Rightarrow> Fault + 'a" where
  "val s = (case slot s of None \<Rightarrow> Inl UB | Some v \<Rightarrow> Inr v)"

text \<open>
  Modelled from the spec: \<open>Storage::construct_from_none(t)\<close>, the transition
  None\<rightarrow>Some: the value is constructed into the dead slot.
\<close>

definition construct_from_none :: "'a \<Rightarrow> 'a Storage \<Rightarrow> Fault + 'a Storage \<times> 'a Event list" where
  "construct_from_none t s =
     (case slot s of
        Some old \<Rightarrow> Inl UB
      | None \<Rightarrow> Inr (\<lparr>disc = State_Some, slot = Some t\<rparr>, [Constructed t]))"

text \<open>
  Modelled from the spec: \<open>Storage::set_some(t)\<close>, the transitions None\<rightarrow>Some and
  Some\<rightarrow>Some ("replace, assign"): a dead slot is constructed, a live one assigned.
\<close>

definition set_some :: "'a \<Rightarrow> 'a Storage \<Rightarrow> Fault + 'a Storage \<times> 'a Event list" where
  "set_some t s =
     (if disc s = State_None then construct_from_none t s
      else (case slot s of
              None \<Rightarrow> Inl UB
            | Some old \<Rightarrow> Inr (\<lparr>disc = State_Some, slot = Some t\<rparr>, [Assigned old t])))"

text \<open>
  Modelled from the spec: \<open>Storage::set_none()\<close>, the transition Some\<rightarrow>None that
  destroys the payload; option.h says of it "The state has to become None, and we
  must destroy the inner T".
\<close>

definition set_none :: "'a Storage \<Rightarrow> Fault + 'a Storage \<times> 'a Event list" where
  "set_none s =
     (case slot s of
        None \<Rightarrow> Inl UB
      | Some v \<Rightarrow> Inr (\<lparr>disc = State_None, slot = None\<rparr>, [Destroyed v]))"

text \<open>
  Modelled from the spec: \<open>Storage::take_and_set_none()\<close>, the move-out: the value
  leaves the slot for the caller, who owns it from then on, and the discriminant
  becomes None; option.h says of \<open>take\<close> "the value is moved into the returned Option
  and this Option will contain None afterward".
\<close>

definition take_and_set_none :: "'a Storage \<Rightarrow> Fault + 'a \<times> 'a Storage" where
  "take_and_set_none s =
     (case slot s of
        None \<Rightarrow> Inl UB
      | Some v \<Rightarrow> Inr (v, \<lparr>disc = State_None, slot = None\<rparr>))"

text \<open>
  Modelled from the spec: \<open>Storage::destroy()\<close>, the "explicit destroy" of the
  payload at the end of the owner's lifetime; the discriminant is not written.
\<close>

definition destroy :: "'a Storage \<Rightarrow> Fault + 'a Storage \<times> 'a Event list" where
  "destroy s =
     (case slot s of
        None \<Rightarrow> Inl UB
      | Some v \<Rightarrow> Inr (s\<lparr>slot := None\<rparr>, [Destroyed v]))"

section \<open>Option\<close>

text \<open>The class has the one data member \<open>t_\<close>, the storage cell.\<close>

record 'a Option =
  t' :: "'a Storage"

text \<open>\<open>Option()\<close>, and the private constructors \<open>Option(const T&)\<close>, \<open>Option(T&&)\<close>
  that \<open>Option::with\<close> returns.\<close>

definition Option_none :: "'a Option" where
  "Option_none = \<lparr>t' = Storage_empty\<rparr>"

definition Option_with :: "'a \<Rightarrow> 'a Option" where
  "Option_with t = \<lparr>t' = Storage_with t\<rparr>"

definition is_some :: "'a Option \<Rightarrow> bool" where
  "is_some self = (state (t' self) = State_Some)"

definition is_none :: "'a Option \<Rightarrow> bool" where
  "is_none self = (state (t' self) = State_None)"

text \<open>
  \<open>~Option()\<close>: defaulted when \<open>T\<close> is trivially destructible, and then no
  destructor of a payload runs. The result is the list of events.
\<close>

definition Option_dtor :: "'a Traits \<Rightarrow> 'a Option \<Rightarrow> Fault + 'a Event list" where
  "Option_dtor tr self =
     (if IsTrivialDtorOrRef tr then Inr []
      else if state (t' self) = State_Some
           then bind_res (destroy (t' self)) (\<lambda>(s, ev). Inr ev)
           else Inr [])"

text \<open>
  \<open>Option(const Option& o)\<close>. The overload for a \<open>T\<close> that is not
  \<open>CopyOrRef\<close> is deleted: a program that copies such an Option does not compile.
  The defaulted overload copies the member trivially: a "raw memory operation", after
  which the new object has the representation of \<open>o\<close>. The result is the new
  Option and the events.
\<close>

definition Option_copy_ctor :: "'a Traits \<Rightarrow> 'a Option \<Rightarrow> Fault + 'a Option \<times> 'a Event list" where
  "Option_copy_ctor tr o' =
     (if \<not> CopyOrRef tr then Inl (IllFormed ''Option(const Option&) = delete'')
      else if IsTrivialCopyCtorOrRef tr then Inr (o', [])
      else if state (t' o') = State_Some
           then bind_res (val (t' o')) (\<lambda>v.
                bind_res (construct_from_none v (t' Option_none)) (\<lambda>(s, ev).
                Inr (\<lparr>t' = s\<rparr>, ev)))
           else Inr (Option_none, []))"

text \<open>
  \<open>Option(Option&& o)\<close>. The defaulted overload moves the member trivially: a raw
  memory copy that leaves \<open>o\<close> as it was. The result is the new Option, \<open>o\<close>
  afterwards, and the events.
\<close>

definition Option_move_ctor ::
  "'a Traits \<Rightarrow> 'a Option \<Rightarrow> Fault + 'a Option \<times> 'a Option \<times> 'a Event list" where
  "Option_move_ctor tr o' =
     (if IsTrivialMoveCtorOrRef tr then Inr (o', o', [])
      else if state (t' o') = State_Some
           then bind_res (take_and_set_none (t' o')) (\<lambda>(v, os).
                bind_res (construct_from_none v (t' Option_none)) (\<lambda>(s, ev).
                Inr (\<lparr>t' = s\<rparr>, \<lparr>t' = os\<rparr>, ev)))
           else Inr (Option_none, o', []))"

text \<open>
  \<open>operator=(const Option& o)\<close> on the object \<open>self\<close>, \<open>o\<close> being another
  object. The overload for a \<open>T\<close> that is not \<open>CopyOrRef\<close> is deleted; the
  defaulted one assigns the member trivially. The result is \<open>self\<close> afterwards and
  the events.
\<close>

definition Option_copy_assign ::
  "'a Traits \<Rightarrow> 'a Option \<Rightarrow> 'a Option \<Rightarrow> Fault + 'a Option \<times> 'a Event list" where
  "Option_copy_assign tr self o' =
     (if \<not> CopyOrRef tr then Inl (IllFormed ''operator=(const Option&) = delete'')
      else if IsTrivialCopyAssignOrRef tr then Inr (o', [])
      else if state (t' o') = State_Some
           then bind_res (val (t' o')) (\<lambda>v.
                bind_res (set_some v (t' self)) (\<lambda>(s, ev).
                Inr (\<lparr>t' = s\<rparr>, ev)))
      else if state (t' self) = State_Some
           then bind_res (set_none (t' self)) (\<lambda>(s, ev). Inr (\<lparr>t' = s\<rparr>, ev))
      else Inr (self, []))"

text \<open>
  \<open>operator=(Option&& o)\<close> on the object \<open>self\<close>, \<open>o\<close> being another object.
  The result is \<open>self\<close> afterwards, \<open>o\<close> afterwards, and the events.
\<close>

definition Option_move_assign ::
  "'a Traits \<Rightarrow> 'a Option \<Rightarrow> 'a Option \<Rightarrow> Fault + 'a Option \<times> 'a Option \<times> 'a Event list" where
  "Option_move_assign tr self o' =
     (if IsTrivialMoveAssignOrRef tr then Inr (o', o', [])
      else if state (t' o') = State_Some
           then bind_res (take_and_set_none (t' o')) (\<lambda>(v, os).
                bind_res (set_some v (t' self)) (\<lambda>(s, ev).
                Inr (\<lparr>t' = s\<rparr>, \<lparr>t' = os\<rparr>, ev)))
      else if state (t' self) = State_Some
           then bind_res (set_none (t' self)) (\<lambda>(s, ev). Inr (\<lparr>t' = s\<rparr>, o', ev))
      else Inr (self, o', []))"

text \<open>
  \<open>clone() const&\<close>, for a \<open>T\<close> that is \<open>Clone\<close> and not \<open>Copy\<close>. The object
  is not written; the result is the new Option.
\<close>

definition clone :: "'a Traits \<Rightarrow> 'a Option \<Rightarrow> Fault + 'a Option" where
  "clone tr self =
     (if state (t' self) = State_Some
      then bind_res (val (t' self)) (\<lambda>v. Inr (Option_with (clone_T tr v)))
      else Inr Option_none)"

text \<open>
  \<open>clone_from(const Option& source) &\<close>. \<open>source_is_this\<close> is the test
  \<open>&source == this\<close>. With both sides \<open>Some\<close> the payload of \<open>self\<close> is written
  through \<open>val_mut()\<close> and stays alive; otherwise a clone of \<open>source\<close> is
  move-assigned and the temporary is destroyed. The result is \<open>self\<close> afterwards
  and the events.
\<close>

definition clone_from ::
  "'a Traits \<Rightarrow> bool \<Rightarrow> 'a Option \<Rightarrow> 'a Option \<Rightarrow> Fault + 'a Option \<times> 'a Event list" where
  "clone_from tr source_is_this self source =
     (if source_is_this then Inr (self, [])
      else if state (t' self) = State_Some \<and> state (t' source) = State_Some
      then bind_res (val (t' self)) (\<lambda>old.
           bind_res (val (t' source)) (\<lambda>v.
           Inr (\<lparr>t' = (t' self)\<lparr>slot := Some (clone_into tr old v)\<rparr>\<rparr>,
                [Assigned old (clone_into tr old v)])))
      else bind_res (clone tr source) (\<lambda>tmp.
           bind_res (Option_move_assign tr self tmp) (\<lambda>(self', tmp', ev).
           bind_res (Option_dtor tr tmp') (\<lambda>ev'.
           Inr (self', ev @ ev')))))"

text \<open>
  The unwrap family, on an rvalue Option. The result is the value returned and the
  Option afterwards.
\<close>

definition unwrap_unchecked :: "'a Option \<Rightarrow> Fault + 'a \<times> 'a Option" where
  "unwrap_unchecked self =
     bind_res (take_and_set_none (t' self)) (\<lambda>(v, s). Inr (v, \<lparr>t' = s\<rparr>))"

definition expect :: "string \<Rightarrow> 'a Option \<Rightarrow> Fault + 'a \<times> 'a Option" where
  "expect msg self =
     bind_res (check_with_message (state (t' self) = State_Some) msg) (\<lambda>_.
     unwrap_unchecked self)"

definition unwrap :: "'a Option \<Rightarrow> Fault + 'a \<times> 'a Option" where
  "unwrap self =
     bind_res (check (state (t' self) = State_Some)) (\<lambda>_.
     unwrap_unchecked self)"

definition unwrap_or :: "'a \<Rightarrow> 'a Option \<Rightarrow> Fault + 'a \<times> 'a Option" where
  "unwrap_or default_result self =
     (if state (t' self) = State_Some
      then bind_res (take_and_set_none (t' self)) (\<lambda>(v, s). Inr (v, \<lparr>t' = s\<rparr>))
      else Inr (default_result, self))"

definition unwrap_or_else :: "(unit \<Rightarrow> 'a) \<Rightarrow> 'a Option \<Rightarrow> Fault + 'a \<times> 'a Option" where
  "unwrap_or_else f self =
     (if state (t' self) = State_Some
      then bind_res (take_and_set_none (t' self)) (\<lambda>(v, s). Inr (v, \<lparr>t' = s\<rparr>))
      else Inr (f (), self))"

definition unwrap_or_default :: "'a Traits \<Rightarrow> 'a Option \<Rightarrow> Fault + 'a \<times> 'a Option" where
  "unwrap_or_default tr self =
     (if state (t' self) = State_Some
      then bind_res (take_and_set_none (t' self)) (\<lambda>(v, s). Inr (v, \<lparr>t' = s\<rparr>))
      else Inr (T_default tr, self))"

definition as_value_unchecked :: "'a Option \<Rightarrow> Fault + 'a" where
  "as_value_unchecked self = val (t' self)"

text \<open>\<open>take() &\<close>: the result is the Option returned and the object afterwards.\<close>

definition take' :: "'a Option \<Rightarrow> Fault + 'a Option \<times> 'a Option" where
  "take' self =
     (if state (t' self) = State_Some
      then bind_res (take_and_set_none (t' self)) (\<lambda>(v, s). Inr (Option_with v, \<lparr>t' = s\<rparr>))
      else Inr (Option_none, self))"

text \<open>
  \<open>filter(p) &&\<close>: the result is the Option returned, the object afterwards, and the
  events; the call of the predicate on the payload is an event.
\<close>

definition filter' ::
  "('a \<Rightarrow> bool) \<Rightarrow> 'a Option \<Rightarrow> Fault + 'a Option \<times> 'a Option \<times> 'a Event list" where
  "filter' p self =
     (if state (t' self) = State_Some
      then bind_res (val (t' self)) (\<lambda>v.
           if p v
           then bind_res (take_and_set_none (t' self)) (\<lambda>(x, s).
                Inr (Option_with x, \<lparr>t' = s\<rparr>, [Called v]))
           else bind_res (set_none (t' self)) (\<lambda>(s, ev).
                Inr (Option_none, \<lparr>t' = s\<rparr>, Called v # ev)))
      else Inr (Option_none, self, []))"

text \<open>
  \<open>operator==\<close> and the \<open>operator<=>\<close> of a payload with a strong ordering.
  \<open>switch (l)\<close> reads the state through \<open>operator State()\<close>. The comparison of two
  payloads is the parameter.
\<close>

datatype strong_ordering = strong_less | strong_equivalent | strong_greater

definition Option_eq :: "('a \<Rightarrow> 'a \<Rightarrow> bool) \<Rightarrow> 'a Option \<Rightarrow> 'a Option \<Rightarrow> Fault + bool" where
  "Option_eq T_eq l r =
     (case state (t' l) of
        State_Some \<Rightarrow>
          (if is_some r
           then bind_res (as_value_unchecked l) (\<lambda>a.
                bind_res (as_value_unchecked r) (\<lambda>b. Inr (T_eq a b)))
           else Inr False)
      | State_None \<Rightarrow> Inr (is_none r))"

definition Option_three_way ::
  "('a \<Rightarrow> 'a \<Rightarrow> strong_ordering) \<Rightarrow> 'a Option \<Rightarrow> 'a Option \<Rightarrow> Fault + strong_ordering" where
  "Option_three_way T_cmp l r =
     (case state (t' l) of
        State_Some \<Rightarrow>
          (if is_some r
           then bind_res (as_value_unchecked l) (\<lambda>a.
                bind_res (as_value_unchecked r) (\<lambda>b. Inr (T_cmp a b)))
           else Inr strong_greater)
      | State_None \<Rightarrow>
          (if is_some r then Inr strong_less else Inr strong_equivalent))"

text \<open>
  The invariant of an Optional: the "discriminant accurately reflects whether the
  storage cell is live".
\<close>

definition wf_Option :: "'a Option \<Rightarrow> bool" where
  "wf_Option self =
     (case slot (t' self) of
        None \<Rightarrow> disc (t' self) = State_None
      | Some v \<Rightarrow> disc (t' self) = State_Some)"

text \<open>
  Payload types to run the model on: one like \<open>int\<close>, trivially copied, moved
  and destroyed and \<open>Copy\<close>; one like an owning handle, with hand-written special
  members, not \<open>Copy\<close>, \<open>Clone\<close> through a \<open>clone()\<close> method that returns an
  equal value, and no \<open>clone_from\<close>; one like a string, \<open>Copy\<close> with
  hand-written special members; and one like a struct that counts its instances, with
  a user-provided destructor and the implicit, trivial copy and move assignment.
\<close>

definition trivial_T :: "int Traits" where
  "trivial_T =
     \<lparr>IsTrivialDtorOrRef = True, IsTrivialCopyCtorOrRef = True,
      IsTrivialMoveCtorOrRef = True, IsTrivialCopyAssignOrRef = True,
      IsTrivialMoveAssignOrRef = True, Copy = True, CloneFrom = True,
      T_clone = (\<lambda>x. x), T_clone_from = (\<lambda>dest source. source), T_default = 0\<rparr>"

definition owning_T :: "int Traits" where
  "owning_T =
     \<lparr>IsTrivialDtorOrRef = False, IsTrivialCopyCtorOrRef = False,
      IsTrivialMoveCtorOrRef = False, IsTrivialCopyAssignOrRef = False,
      IsTrivialMoveAssignOrRef = False, Copy = False, CloneFrom = False,
      T_clone = (\<lambda>x. x), T_clone_from = (\<lambda>dest source. source), T_default = 0\<rparr>"

definition string_T :: "int Traits" where
  "string_T =
     \<lparr>IsTrivialDtorOrRef = False, IsTrivialCopyCtorOrRef = False,
      IsTrivialMoveCtorOrRef = False, IsTrivialCopyAssignOrRef = False,
      IsTrivialMoveAssignOrRef = False, Copy = True, CloneFrom = True,
      T_clone = (\<lambda>x. x), T_clone_from = (\<lambda>dest source. source), T_default = 0\<rparr>"

definition counted_T :: "int Traits" where
  "counted_T =
     \<lparr>IsTrivialDtorOrRef = False, IsTrivialCopyCtorOrRef = False,
      IsTrivialMoveCtorOrRef = False, IsTrivialCopyAssignOrRef = True,
      IsTrivialMoveAssignOrRef = True, Copy = True, CloneFrom = True,
      T_clone = (\<lambda>x. x), T_clone_from = (\<lambda>dest source. source), T_default = 0\<rparr>"

section \<open>sus/choice/__private/storage.h: the nested unions of Choice\<close>

text \<open>
  \<open>union Storage<I, Elements...>\<close> is specialised on the first element: \<open>Nothing\<close>
  (an alternative without values), \<open>Tuple<T>\<close> (one value) or \<open>Tuple<Ts...>\<close> with
  more than one value; and on whether more elements follow. The list of elements is
  the template argument, \<open>I\<close> the level.
\<close>

datatype StorageType = Nothing | Tuple_1 | Tuple_n

text \<open>
  A union has at most one active member: \<open>tuple_\<close> with the payload of this level,
  or \<open>more_\<close> with the union of the next level; after \<open>Storage() {}\<close> and after
  the active member's destructor it has none. Payloads of all alternatives are values
  of the one type \<open>'a\<close>.
\<close>

datatype 'a choice_Storage = Inactive | tuple' 'a | more' "'a choice_Storage"

datatype weak_ordering = weak_less | weak_equivalent | weak_greater

datatype partial_ordering = partial_less | partial_equivalent | partial_greater | partial_unordered

text \<open>Reading the member \<open>tuple_\<close> of both unions and applying an operation of \<open>Tuple\<close>.\<close>

definition tuples :: "('a \<Rightarrow> 'a \<Rightarrow> 'r) \<Rightarrow> 'a choice_Storage \<Rightarrow> 'a choice_Storage \<Rightarrow> Fault + 'r" where
  "tuples T_op s other =
     (case s of
        tuple' a \<Rightarrow> (case other of tuple' b \<Rightarrow> Inr (T_op a b) | _ \<Rightarrow> Inl UB)
      | _ \<Rightarrow> Inl UB)"

text \<open>
  \<open>destroy(index)\<close>. The result is the union afterwards and the events. The
  destructor \<open>~Storage\<close> of the nested union has an empty body, or is trivial.
\<close>

fun choice_destroy ::
  "nat \<Rightarrow> StorageType list \<Rightarrow> nat \<Rightarrow> 'a choice_Storage \<Rightarrow> Fault + 'a choice_Storage \<times> 'a Event list" where
  "choice_destroy I [] index s = Inl (IllFormed ''Storage<I>'')"
| "choice_destroy I [Nothing] index s =
     bind_res (check (index = I)) (\<lambda>_. Inr (s, []))"
| "choice_destroy I [T] index s =
     bind_res (check (index = I)) (\<lambda>_.
       case s of tuple' v \<Rightarrow> Inr (Inactive, [Destroyed v]) | _ \<Rightarrow> Inl UB)"
| "choice_destroy I (Nothing # Elements) index s =
     (if index \<noteq> I
      then (case s of
              more' m \<Rightarrow>
                bind_res (choice_destroy (I + 1) Elements index m) (\<lambda>(m', ev).
                Inr (Inactive, ev))
            | _ \<Rightarrow> Inl UB)
      else Inr (s, []))"
| "choice_destroy I (T # Elements) index s =
     (if index = I
      then (case s of tuple' v \<Rightarrow> Inr (Inactive, [Destroyed v]) | _ \<Rightarrow> Inl UB)
      else (case s of
              more' m \<Rightarrow>
                bind_res (choice_destroy (I + 1) Elements index m) (\<lambda>(m', ev).
                Inr (Inactive, ev))
            | _ \<Rightarrow> Inl UB))"

text \<open>\<open>eq(index, other)\<close>; \<open>T_eq\<close> is \<open>operator==\<close> of the tuples.\<close>

fun choice_eq ::
  "('a \<Rightarrow> 'a \<Rightarrow> bool) \<Rightarrow> nat \<Rightarrow> StorageType list \<Rightarrow> nat \<Rightarrow>
   'a choice_Storage \<Rightarrow> 'a choice_Storage \<Rightarrow> Fault + bool" where
  "choice_eq T_eq I [] index s other = Inl (IllFormed ''Storage<I>'')"
| "choice_eq T_eq I [Nothing] index s other =
     bind_res (check (index = I)) (\<lambda>_. Inr True)"
| "choice_eq T_eq I [T] index s other =
     bind_res (check (index = I)) (\<lambda>_. tuples T_eq s other)"
| "choice_eq T_eq I (Nothing # Elements) index s other =
     (if index = I then Inr True
      else (case s of
              more' m \<Rightarrow>
                (case other of
                   more' om \<Rightarrow> choice_eq T_eq (I + 1) Elements index m om
                 | _ \<Rightarrow> Inl UB)
            | _ \<Rightarrow> Inl UB))"
| "choice_eq T_eq I (T # Elements) index s other =
     (if index = I then tuples T_eq s other
      else (case s of
              more' m \<Rightarrow>
                (case other of
                   more' om \<Rightarrow> choice_eq T_eq (I + 1) Elements index m om
                 | _ \<Rightarrow> Inl UB)
            | _ \<Rightarrow> Inl UB))"

text \<open>
  \<open>strong_ord(index, other)\<close>; \<open>strong_order\<close> is \<open>std::strong_order\<close> on the
  tuples. In the specialisation for \<open>Tuple<Ts...>\<close> with more elements to follow,
  the other branch is \<open>return more_.ord(index, other.more_);\<close> and no
  specialisation of \<open>Storage\<close> declares a member \<open>ord\<close>. First the bodies, one
  equation for each specialisation.
\<close>

fun strong_ord_body ::
  "('a \<Rightarrow> 'a \<Rightarrow> strong_ordering) \<Rightarrow> nat \<Rightarrow> StorageType list \<Rightarrow> nat \<Rightarrow>
   'a choice_Storage \<Rightarrow> 'a choice_Storage \<Rightarrow> Fault + strong_ordering" where
  "strong_ord_body strong_order I [] index s other = Inl (IllFormed ''Storage<I>'')"
| "strong_ord_body strong_order I [Nothing] index s other =
     bind_res (check (index = I)) (\<lambda>_. Inr strong_equivalent)"
| "strong_ord_body strong_order I [T] index s other =
     bind_res (check (index = I)) (\<lambda>_. tuples strong_order s other)"
| "strong_ord_body strong_order I (Nothing # Elements) index s other =
     (if index = I then Inr strong_equivalent
      else (case s of
              more' m \<Rightarrow>
                (case other of
                   more' om \<Rightarrow> strong_ord_body strong_order (I + 1) Elements index m om
                 | _ \<Rightarrow> Inl UB)
            | _ \<Rightarrow> Inl UB))"
| "strong_ord_body strong_order I (Tuple_1 # Elements) index s other =
     (if index = I then tuples strong_order s other
      else (case s of
              more' m \<Rightarrow>
                (case other of
                   more' om \<Rightarrow> strong_ord_body strong_order (I + 1) Elements index m om
                 | _ \<Rightarrow> Inl UB)
            | _ \<Rightarrow> Inl UB))"
| "strong_ord_body strong_order I (Tuple_n # Elements) index s other =
     (if index = I then tuples strong_order s other
      else Inl (IllFormed ''more_.ord''))"

text \<open>
  A member function of a class template is instantiated as a whole where it is
  called. The call \<open>more_.ord\<close> therefore makes \<open>strong_ord\<close> of the
  specialisation for \<open>Tuple<Ts...>\<close> with more elements ill-formed whatever the
  index is; and the body of every other specialisation with more elements calls
  \<open>more_.strong_ord\<close>, so that it instantiates \<open>strong_ord\<close> of the next
  level. \<open>calls_undeclared_ord\<close> follows this chain of instantiations.
\<close>

fun calls_undeclared_ord :: "StorageType list \<Rightarrow> bool" where
  "calls_undeclared_ord [] = False"
| "calls_undeclared_ord [T] = False"
| "calls_undeclared_ord (Tuple_n # Elements) = True"
| "calls_undeclared_ord (T # Elements) = calls_undeclared_ord Elements"

definition choice_strong_ord ::
  "('a \<Rightarrow> 'a \<Rightarrow> strong_ordering) \<Rightarrow> nat \<Rightarrow> StorageType list \<Rightarrow> nat \<Rightarrow>
   'a choice_Storage \<Rightarrow> 'a choice_Storage \<Rightarrow> Fault + strong_ordering" where
  "choice_strong_ord strong_order I Elements index s other =
     (if calls_undeclared_ord Elements then Inl (IllFormed ''more_.ord'')
      else strong_ord_body strong_order I Elements index s other)"

text \<open>\<open>weak_ord(index, other)\<close>; \<open>weak_order\<close> is \<open>std::weak_order\<close> on the tuples.\<close>

fun choice_weak_ord ::
  "('a \<Rightarrow> 'a \<Rightarrow> weak_ordering) \<Rightarrow> nat \<Rightarrow> StorageType list \<Rightarrow> nat \<Rightarrow>
   'a choice_Storage \<Rightarrow> 'a choice_Storage \<Rightarrow> Fault + weak_ordering" where
  "choice_weak_ord weak_order I [] index s other = Inl (IllFormed ''Storage<I>'')"
| "choice_weak_ord weak_order I [Nothing] index s other =
     bind_res (check (index = I)) (\<lambda>_. Inr weak_equivalent)"
| "choice_weak_ord weak_order I [T] index s other =
     bind_res (check (index = I)) (\<lambda>_. tuples weak_order s other)"
| "choice_weak_ord weak_order I (Nothing # Elements) index s other =
     (if index = I then Inr weak_equivalent
      else (case s of
              more' m \<Rightarrow>
                (case other of
                   more' om \<Rightarrow> choice_weak_ord weak_order (I + 1) Elements index m om
                 | _ \<Rightarrow> Inl UB)
            | _ \<Rightarrow> Inl UB))"
| "choice_weak_ord weak_order I (T # Elements) index s other =
     (if index = I then tuples weak_order s other
      else (case s of
              more' m \<Rightarrow>
                (case other of
                   more' om \<Rightarrow> choice_weak_ord weak_order (I + 1) Elements index m om
                 | _ \<Rightarrow> Inl UB)
            | _ \<Rightarrow> Inl UB))"

text \<open>\<open>partial_ord(index, other)\<close>; \<open>partial_order\<close> is \<open>std::partial_order\<close>.\<close>

fun choice_partial_ord ::
  "('a \<Rightarrow> 'a \<Rightarrow> partial_ordering) \<Rightarrow> nat \<Rightarrow> StorageType list \<Rightarrow> nat \<Rightarrow>
   'a choice_Storage \<Rightarrow> 'a choice_Storage \<Rightarrow> Fault + partial_ordering" where
  "choice_partial_ord partial_order I [] index s other = Inl (IllFormed ''Storage<I>'')"
| "choice_partial_ord partial_order I [Nothing] index s other =
     bind_res (check (index = I)) (\<lambda>_. Inr partial_equivalent)"
| "choice_partial_ord partial_order I [T] index s other =
     bind_res (check (index = I)) (\<lambda>_. tuples partial_order s other)"
| "choice_partial_ord partial_order I (Nothing # Elements) index s other =
     (if index = I then Inr partial_equivalent
      else (case s of
              more' m \<Rightarrow>
                (case other of
                   more' om \<Rightarrow> choice_partial_ord partial_order (I + 1) Elements index m om
                 | _ \<Rightarrow> Inl UB)
            | _ \<Rightarrow> Inl UB))"
| "choice_partial_ord partial_order I (T # Elements) index s other =
     (if index = I then tuples partial_order s other
      else (case s of
              more' m \<Rightarrow>
                (case other of
                   more' om \<Rightarrow> choice_partial_ord partial_order (I + 1) Elements index m om
                 | _ \<Rightarrow> Inl UB)
            | _ \<Rightarrow> Inl UB))"

text \<open>
  The invariant of a Choice: "exactly one nested union level is live", the one the
  index names. Every level above it has \<open>more_\<close> active; the level itself has
  \<open>tuple_\<close> active, or no member when the alternative is \<open>Nothing\<close>.
  \<open>live_payload\<close> is the payload found there.
\<close>

fun live_at :: "nat \<Rightarrow> StorageType list \<Rightarrow> nat \<Rightarrow> 'a choice_Storage \<Rightarrow> bool" where
  "live_at I [] index s = False"
| "live_at I (T # Elements) index s =
     (if index = I
      then (case T of
              Nothing \<Rightarrow> (case s of Inactive \<Rightarrow> True | _ \<Rightarrow> False)
            | _ \<Rightarrow> (case s of tuple' v \<Rightarrow> True | _ \<Rightarrow> False))
      else (case s of more' m \<Rightarrow> live_at (I + 1) Elements index m | _ \<Rightarrow> False))"

fun live_payload :: "nat \<Rightarrow> StorageType list \<Rightarrow> nat \<Rightarrow> 'a choice_Storage \<Rightarrow> 'a option" where
  "live_payload I [] index s = None"
| "live_payload I (T # Elements) index s =
     (if index = I
      then (case s of tuple' v \<Rightarrow> Some v | _ \<Rightarrow> None)
      else (case s of more' m \<Rightarrow> live_payload (I + 1) Elements index m | _ \<Rightarrow> None))"

text \<open>
  An ordered payload type to run the comparisons on: \<open>int\<close>, with the three
  results of its \<open>operator<=>\<close>.
\<close>

definition int_strong_order :: "int \<Rightarrow> int \<Rightarrow> strong_ordering" where
  "int_strong_order a b =
     (if a < b then strong_less else if a = b then strong_equivalent else strong_greater)"

definition int_weak_order :: "int \<Rightarrow> int \<Rightarrow> weak_ordering" where
  "int_weak_order a b =
     (if a < b then weak_less else if a = b then weak_equivalent else weak_greater)"

definition int_partial_order :: "int \<Rightarrow> int \<Rightarrow> partial_ordering" where
  "int_partial_order a b =
     (if a < b then partial_less else if a = b then partial_equivalent else partial_greater)"

section \<open>Properties of int_log10\<close>

text \<open>
  Adding a constant that keeps the sum inside one 17-bit block fixes the bits above
  the low 17: \<open>k\<close> is the block number.
\<close>

lemma drop17_add:
  fixes v :: "32 word"
  assumes "k * 131072 \<le> unat v + c" and "unat v + c < (k + 1) * 131072" and "k < 32768"
  shows "drop_bit 17 (v + of_nat c) = (of_nat k :: 32 word)"
proof -
  have c: "c < 4294967296" using assms by simp
  have small: "unat v + c < 4294967296" using assms by simp
  have "unat (v + of_nat c) = (unat v + c) mod 4294967296"
    using c by (simp add: unat_word_ariths unat_of_nat)
  then have s: "unat (v + of_nat c) = unat v + c" using small by simp
  have "unat (drop_bit 17 (v + of_nat c)) = drop_bit 17 (unat (v + of_nat c))"
    by (rule unat_drop_bit_eq)
  also have "\<dots> = (unat v + c) div 131072"
    by (simp only: s drop_bit_eq_div) simp
  also have "\<dots> = k" using assms(1,2) by (simp add: div_nat_eqI mult.commute)
  finally have "unat (drop_bit 17 (v + of_nat c)) = unat (of_nat k :: 32 word)"
    using assms(3) by (simp add: unat_of_nat)
  then show ?thesis by (simp add: word_unat_eq_iff)
qed

lemma C_vals:
  "C1 = of_nat 393206" "C2 = of_nat 524188" "C3 = of_nat 916504" "C4 = of_nat 514288"
  by (simp_all add: C1_def C2_def C3_def C4_def)

text \<open>The five rows of the table in the header's comment.\<close>

lemma lt5_0:
  assumes "unat v < 10"
  shows "less_than_5 v = 0"
proof -
  have a: "drop_bit 17 (v + C1) = 2" using drop17_add[of 2 v 393206] assms by (simp add: C_vals)
  have b: "drop_bit 17 (v + C2) = 3" using drop17_add[of 3 v 524188] assms by (simp add: C_vals)
  have c: "drop_bit 17 (v + C3) = 6" using drop17_add[of 6 v 916504] assms by (simp add: C_vals)
  have d: "drop_bit 17 (v + C4) = 3" using drop17_add[of 3 v 514288] assms by (simp add: C_vals)
  show ?thesis
    by (simp add: less_than_5_def a b c d)
qed

lemma lt5_1:
  assumes "10 \<le> unat v" "unat v < 100"
  shows "less_than_5 v = 1"
proof -
  have a: "drop_bit 17 (v + C1) = 3" using drop17_add[of 3 v 393206] assms by (simp add: C_vals)
  have b: "drop_bit 17 (v + C2) = 3" using drop17_add[of 3 v 524188] assms by (simp add: C_vals)
  have c: "drop_bit 17 (v + C3) = 6" using drop17_add[of 6 v 916504] assms by (simp add: C_vals)
  have d: "drop_bit 17 (v + C4) = 3" using drop17_add[of 3 v 514288] assms by (simp add: C_vals)
  show ?thesis
    by (simp add: less_than_5_def a b c d)
qed

lemma lt5_2:
  assumes "100 \<le> unat v" "unat v < 1000"
  shows "less_than_5 v = 2"
proof -
  have a: "drop_bit 17 (v + C1) = 3" using drop17_add[of 3 v 393206] assms by (simp add: C_vals)
  have b: "drop_bit 17 (v + C2) = 4" using drop17_add[of 4 v 524188] assms by (simp add: C_vals)
  have c: "drop_bit 17 (v + C3) = 6" using drop17_add[of 6 v 916504] assms by (simp add: C_vals)
  have d: "drop_bit 17 (v + C4) = 3" using drop17_add[of 3 v 514288] assms by (simp add: C_vals)
  show ?thesis
    by (simp add: less_than_5_def a b c d)
qed

lemma lt5_3:
  assumes "1000 \<le> unat v" "unat v < 10000"
  shows "less_than_5 v = 3"
proof -
  have a: "drop_bit 17 (v + C1) = 3" using drop17_add[of 3 v 393206] assms by (simp add: C_vals)
  have b: "drop_bit 17 (v + C2) = 4" using drop17_add[of 4 v 524188] assms by (simp add: C_vals)
  have c: "drop_bit 17 (v + C3) = 7" using drop17_add[of 7 v 916504] assms by (simp add: C_vals)
  have d: "drop_bit 17 (v + C4) = 3" using drop17_add[of 3 v 514288] assms by (simp add: C_vals)
  show ?thesis
    by (simp add: less_than_5_def a b c d)
qed

lemma lt5_4:
  assumes "10000 \<le> unat v" "unat v < 100000"
  shows "less_than_5 v = 4"
proof -
  have a: "drop_bit 17 (v + C1) = 3" using drop17_add[of 3 v 393206] assms by (simp add: C_vals)
  have b: "drop_bit 17 (v + C2) = 4" using drop17_add[of 4 v 524188] assms by (simp add: C_vals)
  have c: "drop_bit 17 (v + C3) = 7" using drop17_add[of 7 v 916504] assms by (simp add: C_vals)
  have d: "drop_bit 17 (v + C4) = 4" using drop17_add[of 4 v 514288] assms by (simp add: C_vals)
  show ?thesis
    by (simp add: less_than_5_def a b c d)
qed

lemma less_than_5_log:
  assumes "0 < unat v" "unat v < 100000"
  shows "10 ^ unat (less_than_5 v) \<le> unat v \<and> unat v < 10 ^ (unat (less_than_5 v) + 1)"
  using assms lt5_0[of v] lt5_1[of v] lt5_2[of v] lt5_3[of v] lt5_4[of v]
  by (cases "unat v < 10"; cases "unat v < 100"; cases "unat v < 1000";
      cases "unat v < 10000") simp_all

lemma less_than_5_le_4:
  assumes "unat v < 100000"
  shows "unat (less_than_5 v) \<le> 4"
  using assms lt5_0[of v] lt5_1[of v] lt5_2[of v] lt5_3[of v] lt5_4[of v]
  by (cases "unat v < 10"; cases "unat v < 100"; cases "unat v < 1000";
      cases "unat v < 10000") simp_all

lemma floor_log10_bounds:
  fixes n k :: nat
  assumes "10 ^ k \<le> n" "n < 10 ^ (k + 1)"
  shows "\<lfloor>log 10 (real n)\<rfloor> = int k" and "floorlog 10 n = k + 1"
proof -
  show f: "\<lfloor>log 10 (real n)\<rfloor> = int k"
    using floor_log_nat_eq_if[of 10 k n] assms by simp
  have "0 < n" using assms(1) by (metis gr0I not_less zero_less_numeral zero_less_power)
  then show "floorlog 10 n = k + 1" using f by (simp add: floorlog_def)
qed

lemma u32_bounds:
  assumes "0 < unat v"
  shows "10 ^ unat (u32 v) \<le> unat v \<and> unat v < 10 ^ (unat (u32 v) + 1)"
proof (cases "v \<ge> 100000")
  case False
  then have lt: "unat v < 100000" by (simp add: word_le_nat_alt)
  from False have "u32 v = less_than_5 v" by (simp add: u32_def)
  then show ?thesis using less_than_5_log[OF assms lt] by simp
next
  case True
  then have ge: "100000 \<le> unat v" by (simp add: word_le_nat_alt)
  let ?q = "v div 100000"
  let ?k = "unat (less_than_5 ?q)"
  have uq: "unat ?q = unat v div 100000" by (simp add: unat_div)
  have "unat v < 4294967296" using unsigned_less[of v, where ?'a=nat] by simp
  then have q_hi: "unat ?q < 100000" unfolding uq by simp
  have q_lo: "0 < unat ?q" unfolding uq using ge by simp
  note b = less_than_5_log[OF q_lo q_hi]
  note k4 = less_than_5_le_4[OF q_hi]
  have r: "u32 v = 5 + less_than_5 ?q" using True by (simp add: u32_def)
  have "unat (5 + less_than_5 ?q) = (5 + ?k) mod 4294967296"
    by (simp add: unat_word_ariths)
  then have ur: "unat (u32 v) = 5 + ?k" using k4 r by simp
  have lo: "10 ^ ?k * 100000 \<le> unat v"
  proof -
    have "10 ^ ?k * 100000 \<le> (unat v div 100000) * 100000" using b uq by simp
    also have "\<dots> \<le> unat v" by simp
    finally show ?thesis .
  qed
  have hi: "unat v < 10 ^ (?k + 1) * 100000"
  proof -
    have "unat v div 100000 < 10 ^ (?k + 1)" using b uq by simp
    then show ?thesis by (simp add: less_mult_imp_div_less div_less_iff_less_mult)
  qed
  have p5: "(10::nat) ^ (5 + j) = 10 ^ j * 100000" for j by (simp add: power_add)
  show ?thesis unfolding ur using lo hi p5[of ?k] p5[of "?k + 1"] by (simp add: add.assoc)
qed

text \<open>
  C10. For every \<open>uint32_t\<close> value \<open>v\<close> with \<open>1 \<le> v\<close> (the upper bound
  4294967295 is the type's), \<open>int_log10::u32(v)\<close> is \<open>floor(log10(v))\<close>, which is
  the number of decimal digits of \<open>v\<close> minus one (\<open>floorlog 10\<close> counts the digits);
  and for \<open>0 < v < 100000\<close> the branchless helper \<open>less_than_5\<close> alone returns
  \<open>floor(log10(v))\<close>.
\<close>

theorem u32_floor_log10:
  assumes "1 \<le> unat v"
  shows "int (unat (u32 v)) = \<lfloor>log 10 (real (unat v))\<rfloor>
       \<and> unat (u32 v) + 1 = floorlog 10 (unat v)
       \<and> (unat v < 100000 \<longrightarrow> int (unat (less_than_5 v)) = \<lfloor>log 10 (real (unat v))\<rfloor>)"
proof -
  from assms have pos: "0 < unat v" by simp
  have a: "int (unat (u32 v)) = \<lfloor>log 10 (real (unat v))\<rfloor>"
    and b: "unat (u32 v) + 1 = floorlog 10 (unat v)"
    using floor_log10_bounds[of "unat (u32 v)" "unat v"] u32_bounds[OF pos] by simp_all
  have c: "int (unat (less_than_5 v)) = \<lfloor>log 10 (real (unat v))\<rfloor>" if "unat v < 100000"
    using floor_log10_bounds(1)[of "unat (less_than_5 v)" "unat v"] less_than_5_log[OF pos that]
    by simp
  from a b c show ?thesis by simp
qed

theorem u32_floor_log10_witness:
  "1 \<le> unat (99999 :: 32 word) \<and> unat (99999 :: 32 word) < 100000
   \<and> \<lfloor>log 10 (real (unat (99999 :: 32 word)))\<rfloor> = 4
   \<and> floorlog 10 (unat (99999 :: 32 word)) = 5
   \<and> unat (u32 99999) = 4 \<and> unat (less_than_5 99999) = 4"
proof -
  have e: "u32 99999 = 4" "less_than_5 99999 = 4"
    by (simp_all add: u32_def less_than_5_def C1_def C2_def C3_def C4_def)
  show ?thesis using u32_floor_log10[of 99999] by (simp add: e)
qed

section \<open>Properties of Option\<close>

lemmas storage_defs =
  Storage_empty_def Storage_with_def state_def val_def construct_from_none_def
  set_some_def set_none_def take_and_set_none_def destroy_def
  bind_res_def check_def check_with_message_def

lemmas option_defs = Option_none_def Option_with_def is_some_def is_none_def

lemma wf_Option_cases:
  "wf_Option self \<longleftrightarrow> self = Option_none \<or> (\<exists>v. self = Option_with v)"
proof -
  obtain d sl where s: "self = \<lparr>t' = \<lparr>disc = d, slot = sl\<rparr>\<rparr>"
    by (cases self, rename_tac st, case_tac st) simp
  show ?thesis unfolding s
    by (cases sl; cases d) (auto simp: wf_Option_def option_defs storage_defs)
qed

lemma is_none_Option_none: "is_none Option_none" "\<not> is_some Option_none"
  by (simp_all add: option_defs storage_defs)

lemma is_some_Option_with: "is_some (Option_with v)" "\<not> is_none (Option_with v)"
  by (simp_all add: option_defs storage_defs)


text \<open>
  C1 (as amended). For a payload type that is not trivially move-constructible, the
  hand-written \<open>Option(Option&&)\<close> leaves a source that held \<open>Some(v)\<close> in the
  \<open>None\<close> state, and the new Option holds \<open>v\<close>; for one that is not trivially
  move-assignable, the hand-written \<open>operator=(Option&&)\<close> does the same, whether the
  target was \<open>None\<close> or \<open>Some(w)\<close>. For a trivially move-constructible
  (move-assignable) payload type the defaulted overload is selected: the destination
  receives a copy and the source is left as it was, still \<open>Some(v)\<close>.
\<close>

theorem move_source_state:
  "(\<not> IsTrivialMoveCtorOrRef tr \<longrightarrow>
      Option_move_ctor tr (Option_with v) = Inr (Option_with v, Option_none, [Constructed v]))
   \<and> (IsTrivialMoveCtorOrRef tr \<longrightarrow>
      Option_move_ctor tr (Option_with v) = Inr (Option_with v, Option_with v, []))
   \<and> (\<not> IsTrivialMoveAssignOrRef tr \<longrightarrow>
      Option_move_assign tr Option_none (Option_with v)
        = Inr (Option_with v, Option_none, [Constructed v])
      \<and> Option_move_assign tr (Option_with w) (Option_with v)
        = Inr (Option_with v, Option_none, [Assigned w v]))
   \<and> (IsTrivialMoveAssignOrRef tr \<longrightarrow>
      Option_move_assign tr self (Option_with v) = Inr (Option_with v, Option_with v, []))
   \<and> is_none (Option_none :: 'a Option) \<and> is_some (Option_with v)"
  by (simp add: Option_move_ctor_def Option_move_assign_def option_defs storage_defs)

text \<open>
  The theorem at the two example payload types: the owning one for the hand-written
  overloads, the trivial one for the defaulted overloads.
\<close>

theorem move_source_state_witness:
  "\<not> IsTrivialMoveCtorOrRef owning_T \<and> \<not> IsTrivialMoveAssignOrRef owning_T
   \<and> IsTrivialMoveCtorOrRef trivial_T \<and> IsTrivialMoveAssignOrRef trivial_T
   \<and> Option_move_ctor owning_T (Option_with 5) = Inr (Option_with 5, Option_none, [Constructed 5])
   \<and> Option_move_assign owning_T (Option_with 3) (Option_with 5)
       = Inr (Option_with 5, Option_none, [Assigned 3 5])
   \<and> Option_move_ctor trivial_T (Option_with 5) = Inr (Option_with 5, Option_with 5, [])
   \<and> Option_move_assign trivial_T (Option_with 3) (Option_with 5)
       = Inr (Option_with 5, Option_with 5, [])"
proof -
  have t: "\<not> IsTrivialMoveCtorOrRef owning_T" "\<not> IsTrivialMoveAssignOrRef owning_T"
    "IsTrivialMoveCtorOrRef trivial_T" "IsTrivialMoveAssignOrRef trivial_T"
    by (simp_all add: owning_T_def trivial_T_def)
  show ?thesis
    using t move_source_state[of owning_T 5 3 "Option_with 3"]
          move_source_state[of trivial_T 5 3 "Option_with 3"]
    by blast
qed

text \<open>
  C1 as stated fails for a trivially movable payload type: after move-constructing
  from, or move-assigning, an \<open>Option<int>\<close> that holds \<open>Some(5)\<close>, the source
  still holds \<open>Some(5)\<close>.
\<close>

theorem trivial_move_source_stays_Some:
  "Option_move_ctor trivial_T (Option_with 5) = Inr (Option_with 5, Option_with 5, [])
   \<and> Option_move_assign trivial_T Option_none (Option_with 5)
       = Inr (Option_with 5, Option_with 5, [])
   \<and> is_some (Option_with (5::int)) \<and> \<not> is_none (Option_with (5::int))"
  by (simp add: Option_move_ctor_def Option_move_assign_def trivial_T_def option_defs
      storage_defs)

text \<open>
  C4. On an Option holding \<open>Some(v)\<close> with \<open>p(v)\<close> false, \<open>filter(p)\<close> calls
  \<open>p\<close> on \<open>v\<close>, destroys the payload \<open>v\<close> once (the only destructor event),
  returns \<open>None\<close> and leaves the source \<open>None\<close>, so that the destructor of the
  source destroys nothing more. On an Option in the \<open>None\<close> state it returns
  \<open>None\<close> with no event at all: \<open>p\<close> is not called.
\<close>

theorem filter_reject_destroys_once:
  "(\<not> p v \<longrightarrow>
      filter' p (Option_with v) = Inr (Option_none, Option_none, [Called v, Destroyed v])
      \<and> Option_dtor tr (Option_none :: 'a Option) = Inr [])
   \<and> filter' p (Option_none :: 'a Option) = Inr (Option_none, Option_none, [])
   \<and> is_none (Option_none :: 'a Option)"
  by (simp add: filter'_def Option_dtor_def option_defs storage_defs)

text \<open>
  The theorem at the predicate "is positive" and the payload \<open>-2\<close>.
\<close>

theorem filter_reject_destroys_once_witness:
  "\<not> (\<lambda>x::int. 0 < x) (-2)
   \<and> filter' (\<lambda>x::int. 0 < x) (Option_with (-2))
       = Inr (Option_none, Option_none, [Called (-2), Destroyed (-2)])
   \<and> Option_dtor owning_T (Option_none :: int Option) = Inr []"
  using filter_reject_destroys_once[of "\<lambda>x::int. 0 < x" "-2" owning_T] by simp

text \<open>
  C5. On an Option in the \<open>None\<close> state, \<open>unwrap()\<close> and \<open>expect(msg)\<close> end
  the process (a panic, with the message for \<open>expect\<close>) and return nothing, while
  \<open>unwrap_or(d)\<close> returns \<open>d\<close>, \<open>unwrap_or_else(f)\<close> returns \<open>f()\<close> and
  \<open>unwrap_or_default()\<close> returns \<open>T()\<close>. On an Option holding \<open>Some(v)\<close> all
  five return \<open>v\<close> (and leave the Option \<open>None\<close>).
\<close>

theorem unwrap_family:
  "unwrap (Option_none :: 'a Option) = Inl Panic
   \<and> expect msg (Option_none :: 'a Option) = Inl (Panic_with_message msg)
   \<and> unwrap_or d Option_none = Inr (d, Option_none)
   \<and> unwrap_or_else f Option_none = Inr (f (), Option_none)
   \<and> unwrap_or_default tr Option_none = Inr (T_default tr, Option_none)
   \<and> unwrap (Option_with v) = Inr (v, Option_none)
   \<and> expect msg (Option_with v) = Inr (v, Option_none)
   \<and> unwrap_or d (Option_with v) = Inr (v, Option_none)
   \<and> unwrap_or_else f (Option_with v) = Inr (v, Option_none)
   \<and> unwrap_or_default tr (Option_with v) = Inr (v, Option_none)"
  by (simp add: unwrap_def expect_def unwrap_unchecked_def unwrap_or_def unwrap_or_else_def
      unwrap_or_default_def option_defs storage_defs)

text \<open>
  C6. With \<open>T_cmp\<close> the three-way comparison of the payload type and \<open>T_eq\<close> its
  equality: \<open>None <=> Some(x)\<close> is \<open>less\<close>, \<open>Some(x) <=> None\<close> is
  \<open>greater\<close>, \<open>None <=> None\<close> is \<open>equivalent\<close> and \<open>None == None\<close> holds;
  with \<open>Some\<close> on both sides the result is the comparison of the payloads.
\<close>

theorem option_ordering:
  "Option_three_way T_cmp Option_none (Option_with x) = Inr strong_less
   \<and> Option_three_way T_cmp (Option_with x) Option_none = Inr strong_greater
   \<and> Option_three_way T_cmp Option_none Option_none = Inr strong_equivalent
   \<and> Option_three_way T_cmp (Option_with x) (Option_with y) = Inr (T_cmp x y)
   \<and> Option_eq T_eq Option_none Option_none = Inr True
   \<and> Option_eq T_eq Option_none (Option_with x) = Inr False
   \<and> Option_eq T_eq (Option_with x) Option_none = Inr False
   \<and> Option_eq T_eq (Option_with x) (Option_with y) = Inr (T_eq x y)"
  by (simp add: Option_three_way_def Option_eq_def as_value_unchecked_def option_defs
      storage_defs)

text \<open>
  C7. \<open>Option::with(v)\<close> followed by \<open>unwrap()\<close>, \<open>expect(msg)\<close>,
  \<open>unwrap_unchecked()\<close> or \<open>take()\<close> yields \<open>v\<close> itself (for \<open>take\<close>, an
  Option holding \<open>v\<close>), hence a value equal to \<open>v\<close> under any reflexive equality,
  and the Option is in the \<open>None\<close> state right after.
\<close>

theorem with_take_roundtrip:
  "unwrap (Option_with v) = Inr (v, Option_none)
   \<and> expect msg (Option_with v) = Inr (v, Option_none)
   \<and> unwrap_unchecked (Option_with v) = Inr (v, Option_none)
   \<and> take' (Option_with v) = Inr (Option_with v, Option_none)
   \<and> is_none (Option_none :: 'a Option)"
  by (simp add: unwrap_def expect_def unwrap_unchecked_def take'_def option_defs storage_defs)

text \<open>
  C8. For a payload type that is not \<open>Copy\<close> (and \<open>Clone\<close> through its
  \<open>clone()\<close> method \<open>T_clone\<close>): \<open>clone()\<close> on \<open>Some(v)\<close> returns a new
  Option holding \<open>T_clone v\<close>, equal to the original whenever the payload's clone is,
  and the object cloned from is not written (the method is \<open>const\<close>; objects are
  values here, so the new Option shares nothing with it); \<open>clone()\<close> on \<open>None\<close>
  returns \<open>None\<close>. \<open>clone_from(source)\<close> with \<open>Some\<close> on both sides assigns
  into the live payload of the target through \<open>sus::clone_into\<close>: the only event is
  one assignment, no payload is destroyed and none constructed.
\<close>

theorem clone_and_clone_from:
  assumes "\<not> Copy tr"
  shows "clone tr (Option_with v) = Inr (Option_with (T_clone tr v))
       \<and> (T_clone tr v = v \<longrightarrow> clone tr (Option_with v) = Inr (Option_with v))
       \<and> clone tr Option_none = Inr Option_none
       \<and> clone_from tr False (Option_with w) (Option_with v)
           = Inr (Option_with (if CloneFrom tr then T_clone_from tr w v else T_clone tr v),
                  [Assigned w (if CloneFrom tr then T_clone_from tr w v else T_clone tr v)])"
  using assms
  by (simp add: clone_def clone_from_def clone_T_def clone_into_def option_defs storage_defs)

text \<open>
  The theorem at the owning example payload type.
\<close>

theorem clone_and_clone_from_witness:
  "\<not> Copy owning_T \<and> T_clone owning_T 5 = 5
   \<and> clone owning_T (Option_with 5) = Inr (Option_with 5)
   \<and> clone_from owning_T False (Option_with 3) (Option_with 5)
       = Inr (Option_with 5, [Assigned 3 5])"
proof -
  have t: "\<not> Copy owning_T" "T_clone owning_T 5 = 5" "\<not> CloneFrom owning_T"
    by (simp_all add: owning_T_def)
  show ?thesis using t clone_and_clone_from[of owning_T 5 3] by simp
qed

text \<open>
  C9 (as amended). For Options \<open>a\<close> and \<open>b\<close> that satisfy the invariant, after
  \<open>a = b\<close> (copy, for a payload type that is \<open>CopyOrRef\<close>) and after
  \<open>a = std::move(b)\<close> the target equals \<open>b\<close> as it was before the assignment:
  same state, same payload; this holds for the hand-written and for the defaulted
  overloads. For a payload type that is not trivially copy-assignable (respectively
  not trivially move-assignable) the hand-written overload, assigning a \<open>None\<close>
  over \<open>Some(w)\<close>, destroys the payload \<open>w\<close> (the one event) and leaves the
  target \<open>None\<close>.
\<close>

theorem assign_state:
  assumes "wf_Option a" and "wf_Option b"
  shows "(CopyOrRef tr \<longrightarrow> (\<exists>ev. Option_copy_assign tr a b = Inr (b, ev)))
       \<and> (\<exists>src ev. Option_move_assign tr a b = Inr (b, src, ev))
       \<and> (CopyOrRef tr \<and> \<not> IsTrivialCopyAssignOrRef tr \<longrightarrow>
            Option_copy_assign tr (Option_with w) Option_none = Inr (Option_none, [Destroyed w]))
       \<and> (\<not> IsTrivialMoveAssignOrRef tr \<longrightarrow>
            Option_move_assign tr (Option_with w) Option_none
              = Inr (Option_none, Option_none, [Destroyed w]))"
proof -
  from assms(1) have a: "a = Option_none \<or> (\<exists>x. a = Option_with x)"
    by (simp add: wf_Option_cases)
  from assms(2) have b: "b = Option_none \<or> (\<exists>y. b = Option_with y)"
    by (simp add: wf_Option_cases)
  have c: "\<exists>ev. Option_copy_assign tr a b = Inr (b, ev)" if "CopyOrRef tr"
    using a b that by (auto simp: Option_copy_assign_def option_defs storage_defs)
  have m: "\<exists>src ev. Option_move_assign tr a b = Inr (b, src, ev)"
    using a b by (auto simp: Option_move_assign_def option_defs storage_defs)
  have r: "(CopyOrRef tr \<and> \<not> IsTrivialCopyAssignOrRef tr \<longrightarrow>
            Option_copy_assign tr (Option_with w) Option_none = Inr (Option_none, [Destroyed w]))
       \<and> (\<not> IsTrivialMoveAssignOrRef tr \<longrightarrow>
            Option_move_assign tr (Option_with w) Option_none
              = Inr (Option_none, Option_none, [Destroyed w]))"
    by (simp add: Option_copy_assign_def Option_move_assign_def option_defs storage_defs)
  from c m r show ?thesis by blast
qed

text \<open>
  The theorem at \<open>a = Some(3)\<close>, \<open>b = None\<close>, for the payload type like a string:
  \<open>Copy\<close>, with hand-written copy and move assignment.
\<close>

theorem assign_state_witness:
  "wf_Option (Option_with (3::int)) \<and> wf_Option (Option_none :: int Option)
   \<and> CopyOrRef string_T
   \<and> \<not> IsTrivialCopyAssignOrRef string_T \<and> \<not> IsTrivialMoveAssignOrRef string_T
   \<and> (\<exists>ev. Option_copy_assign string_T (Option_with 3) Option_none = Inr (Option_none, ev))
   \<and> (\<exists>src ev. Option_move_assign string_T (Option_with 3) Option_none = Inr (Option_none, src, ev))
   \<and> Option_copy_assign string_T (Option_with 3) Option_none = Inr (Option_none, [Destroyed 3])
   \<and> Option_move_assign string_T (Option_with 3) Option_none
       = Inr (Option_none, Option_none, [Destroyed 3])"
proof -
  have h: "wf_Option (Option_with (3::int))" "wf_Option (Option_none :: int Option)"
    by (simp_all add: wf_Option_def option_defs storage_defs)
  have t: "CopyOrRef string_T" "\<not> IsTrivialCopyAssignOrRef string_T"
    "\<not> IsTrivialMoveAssignOrRef string_T"
    by (simp_all add: string_T_def CopyOrRef_def)
  show ?thesis
    using h t assign_state[OF h, of string_T 3]
    by blast
qed

text \<open>
  C9 as stated fails for a payload type that is trivially assignable and has a
  destructor of its own: assigning a \<open>None\<close> over \<open>Some(3)\<close> selects the
  defaulted overload, which copies the storage cell. The target is left \<open>None\<close>,
  no destructor runs on the payload 3, and the destructor of the target, now
  \<open>None\<close>, runs none either.
\<close>

theorem trivial_assign_runs_no_destructor:
  "CopyOrRef counted_T \<and> \<not> IsTrivialDtorOrRef counted_T
   \<and> Option_copy_assign counted_T (Option_with 3) Option_none = Inr (Option_none, [])
   \<and> Option_move_assign counted_T (Option_with 3) Option_none
       = Inr (Option_none, Option_none, [])
   \<and> Option_dtor counted_T (Option_none :: int Option) = Inr []"
  by (simp add: Option_copy_assign_def Option_move_assign_def Option_dtor_def CopyOrRef_def
      counted_T_def option_defs storage_defs)

section \<open>Properties of the Choice storage\<close>

lemma live_at_range:
  "live_at I Es index s \<Longrightarrow> I \<le> index \<and> index < I + length Es"
proof (induction Es arbitrary: I s)
  case Nil
  then show ?case by simp
next
  case (Cons T Es)
  show ?case
  proof (cases "index = I")
    case True
    then show ?thesis by simp
  next
    case False
    with Cons.prems obtain m where "s = more' m" "live_at (I + 1) Es index m"
      by (auto split: choice_Storage.splits)
    with Cons.IH[of "I + 1" m] show ?thesis by simp
  qed
qed

lemma live_payload_Nothing:
  "live_at I Es index s \<Longrightarrow>
     (live_payload I Es index s = None) = (Es ! (index - I) = Nothing)"
proof (induction Es arbitrary: I s)
  case Nil
  then show ?case by simp
next
  case (Cons T Es)
  show ?case
  proof (cases "index = I")
    case True
    with Cons.prems show ?thesis
      by (cases T; cases s) simp_all
  next
    case False
    with Cons.prems obtain m where m: "s = more' m" "live_at (I + 1) Es index m"
      by (auto split: choice_Storage.splits)
    from live_at_range[OF m(2)] have "index - I = Suc (index - (I + 1))" by arith
    with Cons.IH[OF m(2)] m False show ?thesis by simp
  qed
qed

lemma destroy_gen:
  "live_at I Es index s \<Longrightarrow>
     choice_destroy I Es index s
       = Inr (Inactive, case live_payload I Es index s of Some v \<Rightarrow> [Destroyed v] | None \<Rightarrow> [])"
  by (induction I Es index s rule: choice_destroy.induct)
     (auto simp: bind_res_def check_def split: choice_Storage.splits StorageType.splits if_splits)

lemma choice_eq_live:
  "live_at I Es index s \<Longrightarrow> live_at I Es index other \<Longrightarrow>
     choice_eq T_eq I Es index s other
       = Inr (case live_payload I Es index s of
                None \<Rightarrow> True
              | Some a \<Rightarrow> (case live_payload I Es index other of
                             None \<Rightarrow> True | Some b \<Rightarrow> T_eq a b))"
proof (induction Es arbitrary: I s other)
  case Nil
  then show ?case by simp
next
  case (Cons T Es)
  show ?case
  proof (cases "index = I")
    case True
    with Cons.prems show ?thesis
      by (cases T; cases Es; cases s; cases other)
         (simp_all add: bind_res_def check_def tuples_def)
  next
    case False
    with Cons.prems obtain m om where m: "s = more' m" "live_at (I + 1) Es index m"
      "other = more' om" "live_at (I + 1) Es index om"
      by (auto split: choice_Storage.splits)
    from m(2) obtain E Es' where Es: "Es = E # Es'" by (cases Es) auto
    have step: "choice_eq T_eq I (T # Es) index s other
                  = choice_eq T_eq (I + 1) Es index m om"
      using False m(1,3) unfolding Es by (cases T) simp_all
    have p: "live_payload I (T # Es) index s = live_payload (I + 1) Es index m"
      "live_payload I (T # Es) index other = live_payload (I + 1) Es index om"
      using False m(1,3) by simp_all
    show ?thesis
      unfolding step p by (rule Cons.IH[OF m(2) m(4)])
  qed
qed

lemma choice_weak_ord_live:
  "live_at I Es index s \<Longrightarrow> live_at I Es index other \<Longrightarrow>
     choice_weak_ord weak_order I Es index s other
       = Inr (case live_payload I Es index s of
                None \<Rightarrow> weak_equivalent
              | Some a \<Rightarrow> (case live_payload I Es index other of
                             None \<Rightarrow> weak_equivalent | Some b \<Rightarrow> weak_order a b))"
proof (induction Es arbitrary: I s other)
  case Nil
  then show ?case by simp
next
  case (Cons T Es)
  show ?case
  proof (cases "index = I")
    case True
    with Cons.prems show ?thesis
      by (cases T; cases Es; cases s; cases other)
         (simp_all add: bind_res_def check_def tuples_def)
  next
    case False
    with Cons.prems obtain m om where m: "s = more' m" "live_at (I + 1) Es index m"
      "other = more' om" "live_at (I + 1) Es index om"
      by (auto split: choice_Storage.splits)
    from m(2) obtain E Es' where Es: "Es = E # Es'" by (cases Es) auto
    have step: "choice_weak_ord weak_order I (T # Es) index s other
                  = choice_weak_ord weak_order (I + 1) Es index m om"
      using False m(1,3) unfolding Es by (cases T) simp_all
    have p: "live_payload I (T # Es) index s = live_payload (I + 1) Es index m"
      "live_payload I (T # Es) index other = live_payload (I + 1) Es index om"
      using False m(1,3) by simp_all
    show ?thesis
      unfolding step p by (rule Cons.IH[OF m(2) m(4)])
  qed
qed

lemma choice_partial_ord_live:
  "live_at I Es index s \<Longrightarrow> live_at I Es index other \<Longrightarrow>
     choice_partial_ord partial_order I Es index s other
       = Inr (case live_payload I Es index s of
                None \<Rightarrow> partial_equivalent
              | Some a \<Rightarrow> (case live_payload I Es index other of
                             None \<Rightarrow> partial_equivalent | Some b \<Rightarrow> partial_order a b))"
proof (induction Es arbitrary: I s other)
  case Nil
  then show ?case by simp
next
  case (Cons T Es)
  show ?case
  proof (cases "index = I")
    case True
    with Cons.prems show ?thesis
      by (cases T; cases Es; cases s; cases other)
         (simp_all add: bind_res_def check_def tuples_def)
  next
    case False
    with Cons.prems obtain m om where m: "s = more' m" "live_at (I + 1) Es index m"
      "other = more' om" "live_at (I + 1) Es index om"
      by (auto split: choice_Storage.splits)
    from m(2) obtain E Es' where Es: "Es = E # Es'" by (cases Es) auto
    have step: "choice_partial_ord partial_order I (T # Es) index s other
                  = choice_partial_ord partial_order (I + 1) Es index m om"
      using False m(1,3) unfolding Es by (cases T) simp_all
    have p: "live_payload I (T # Es) index s = live_payload (I + 1) Es index m"
      "live_payload I (T # Es) index other = live_payload (I + 1) Es index om"
      using False m(1,3) by simp_all
    show ?thesis
      unfolding step p by (rule Cons.IH[OF m(2) m(4)])
  qed
qed

lemma calls_undeclared_ord_iff:
  "calls_undeclared_ord Es \<longleftrightarrow> Tuple_n \<in> set (butlast Es)"
  by (induction Es rule: calls_undeclared_ord.induct) auto

lemma strong_ord_body_live:
  "live_at I Es index s \<Longrightarrow> live_at I Es index other \<Longrightarrow>
   \<not> calls_undeclared_ord Es \<Longrightarrow>
     strong_ord_body strong_order I Es index s other
       = Inr (case live_payload I Es index s of
                None \<Rightarrow> strong_equivalent
              | Some a \<Rightarrow> (case live_payload I Es index other of
                             None \<Rightarrow> strong_equivalent | Some b \<Rightarrow> strong_order a b))"
proof (induction Es arbitrary: I s other)
  case Nil
  then show ?case by simp
next
  case (Cons T Es)
  show ?case
  proof (cases "index = I")
    case True
    with Cons.prems show ?thesis
      by (cases T; cases Es; cases s; cases other)
         (simp_all add: bind_res_def check_def tuples_def)
  next
    case False
    with Cons.prems obtain m om where m: "s = more' m" "live_at (I + 1) Es index m"
      "other = more' om" "live_at (I + 1) Es index om"
      by (auto split: choice_Storage.splits)
    from m(2) obtain E Es' where Es: "Es = E # Es'" by (cases Es) auto
    from Cons.prems(3) have T: "T \<noteq> Tuple_n" and rest: "\<not> calls_undeclared_ord Es"
      unfolding Es by (cases T; simp)+
    have step: "strong_ord_body strong_order I (T # Es) index s other
                  = strong_ord_body strong_order (I + 1) Es index m om"
      using T False m(1,3) unfolding Es by (cases T) simp_all
    have p: "live_payload I (T # Es) index s = live_payload (I + 1) Es index m"
      "live_payload I (T # Es) index other = live_payload (I + 1) Es index om"
      using False m(1,3) by simp_all
    show ?thesis
      unfolding step p by (rule Cons.IH[OF m(2) m(4) rest])
  qed
qed

lemma choice_strong_ord_live:
  "live_at I Es index s \<Longrightarrow> live_at I Es index other \<Longrightarrow>
   \<not> calls_undeclared_ord Es \<Longrightarrow>
     choice_strong_ord strong_order I Es index s other
       = Inr (case live_payload I Es index s of
                None \<Rightarrow> strong_equivalent
              | Some a \<Rightarrow> (case live_payload I Es index other of
                             None \<Rightarrow> strong_equivalent | Some b \<Rightarrow> strong_order a b))"
  by (simp add: choice_strong_ord_def strong_ord_body_live)

lemma choice_strong_ord_ill_formed:
  "calls_undeclared_ord Es \<Longrightarrow>
     choice_strong_ord strong_order I Es index s other = Inl (IllFormed ''more_.ord'')"
  by (simp add: choice_strong_ord_def)

text \<open>
  C3. For a union \<open>Storage<I, Elements...>\<close> whose live level is \<open>index\<close>,
  \<open>destroy(index)\<close> returns (no check fails, no inactive member is read), leaves no
  member active, and its only destructor event is the one of the payload at the live
  level: none when that alternative is \<open>Nothing\<close>, exactly one otherwise. No
  payload is skipped and none is destroyed twice.
\<close>

theorem destroy_live_once:
  assumes "live_at I Elements index s"
  shows "choice_destroy I Elements index s
           = Inr (Inactive, case live_payload I Elements index s of
                              Some v \<Rightarrow> [Destroyed v] | None \<Rightarrow> [])
       \<and> (Elements ! (index - I) \<noteq> Nothing \<longrightarrow>
            (\<exists>v. live_payload I Elements index s = Some v
                \<and> choice_destroy I Elements index s = Inr (Inactive, [Destroyed v])))"
proof -
  note d = destroy_gen[OF assms]
  have "\<exists>v. live_payload I Elements index s = Some v
           \<and> choice_destroy I Elements index s = Inr (Inactive, [Destroyed v])"
    if "Elements ! (index - I) \<noteq> Nothing"
  proof -
    from that live_payload_Nothing[OF assms] obtain v
      where "live_payload I Elements index s = Some v" by auto
    with d show ?thesis by simp
  qed
  with d show ?thesis by blast
qed

text \<open>
  The theorem at \<open>Storage<0, Nothing, Tuple<A, B>, Tuple<C>>\<close>, live at index 2.
\<close>

theorem destroy_live_once_witness:
  "live_at 0 [Nothing, Tuple_n, Tuple_1] 2 (more' (more' (tuple' (7::int))))
   \<and> [Nothing, Tuple_n, Tuple_1] ! (2 - 0) \<noteq> Nothing
   \<and> live_payload 0 [Nothing, Tuple_n, Tuple_1] 2 (more' (more' (tuple' (7::int)))) = Some 7
   \<and> choice_destroy 0 [Nothing, Tuple_n, Tuple_1] 2 (more' (more' (tuple' (7::int))))
       = Inr (Inactive, [Destroyed 7])"
proof -
  have h: "live_at 0 [Nothing, Tuple_n, Tuple_1] 2 (more' (more' (tuple' (7::int))))"
    by simp
  show ?thesis using h destroy_live_once[OF h] by simp
qed

text \<open>
  C2. In \<open>Storage<0, Tuple<A, B>, Tuple<C>>\<close> with both unions live at index 1 and
  payloads 3 and 5, \<open>strong_ord(1, other)\<close> is the member of the
  specialisation for \<open>Tuple<Ts...>\<close>, whose other branch calls \<open>more_.ord\<close>, a
  member that no specialisation declares: the call does not compile and no ordering
  is returned, where \<open>std::strong_order\<close> of the payloads is \<open>less\<close>. On the same unions \<open>weak_ord\<close>, \<open>partial_ord\<close> and
  \<open>eq\<close> recurse to level 1 and return the comparison of the payloads, and so does
  \<open>strong_ord\<close> when the level above is a \<open>Tuple<T>\<close>.
\<close>

theorem strong_ord_calls_missing_member:
  "live_at 0 [Tuple_n, Tuple_1] 1 (more' (tuple' (3::int)))
   \<and> live_at 0 [Tuple_n, Tuple_1] 1 (more' (tuple' (5::int)))
   \<and> choice_strong_ord int_strong_order 0 [Tuple_n, Tuple_1] 1
        (more' (tuple' 3)) (more' (tuple' 5)) = Inl (IllFormed ''more_.ord'')
   \<and> int_strong_order 3 5 = strong_less
   \<and> choice_weak_ord int_weak_order 0 [Tuple_n, Tuple_1] 1
        (more' (tuple' 3)) (more' (tuple' 5)) = Inr weak_less
   \<and> choice_partial_ord int_partial_order 0 [Tuple_n, Tuple_1] 1
        (more' (tuple' 3)) (more' (tuple' 5)) = Inr partial_less
   \<and> choice_eq (=) 0 [Tuple_n, Tuple_1] 1
        (more' (tuple' (3::int))) (more' (tuple' 5)) = Inr False
   \<and> choice_strong_ord int_strong_order 0 [Tuple_1, Tuple_n] 1
        (more' (tuple' 3)) (more' (tuple' 5)) = Inr strong_less"
  by (simp add: choice_strong_ord_def int_strong_order_def int_weak_order_def
      int_partial_order_def bind_res_def check_def tuples_def)

end
